theory Spec2Isabelle
  imports Main
begin

section \<open>Data model of \<^verbatim>\<open>unique_ptr.h\<close>\<close>

text \<open>
  The stored pointer (\<^verbatim>\<open>Unique_ptr<T, D>::pointer\<close>) is an untyped address; the null
  pointer value is address 0. An implicit pointer conversion keeps the address.
  A \<^verbatim>\<open>Unique_ptr\<close> instance is itself an object with an address (\<^verbatim>\<open>this\<close>); member
  functions receive that address, so that two references to the same instance alias.
\<close>

type_synonym pointer = nat

abbreviation nullptr :: pointer where
  "nullptr \<equiv> 0"

type_synonym obj = nat

text \<open>
  \<^verbatim>\<open>detail::Compressed_pair<T, D>\<close>: the field \<open>first\<close> is the member \<^verbatim>\<open>first_\<close>, read and
  written through \<^verbatim>\<open>first()\<close>; the field \<open>second\<close> is the member \<^verbatim>\<open>second_\<close>, reached
  through \<^verbatim>\<open>second()\<close>. The specialisation for an empty, non-final \<^verbatim>\<open>D\<close> keeps
  \<^verbatim>\<open>first_\<close> and takes \<^verbatim>\<open>D\<close> as a private base, which \<^verbatim>\<open>second()\<close> returns; the two
  accessors give the same two values, so one record stands for both.
\<close>

record ('t, 'd) Compressed_pair =
  first :: 't
  second :: 'd

text \<open>\<^verbatim>\<open>Unique_ptr<T, D>\<close>: the field \<open>pair\<close> is its only data member, \<^verbatim>\<open>pair_\<close>. A deleter is a value of type \<open>'d\<close>.\<close>

record 'd Unique_ptr =
  pair :: "(pointer, 'd) Compressed_pair"

text \<open>
  One call \<^verbatim>\<open>get_deleter()(p)\<close>: the deleter called, its argument, and the memory of
  \<^verbatim>\<open>Unique_ptr\<close> instances the call runs in (what the deleter reads if it looks at an instance).
\<close>

record 'd call =
  deleter :: 'd
  arg :: pointer
  seen :: "obj \<Rightarrow> 'd Unique_ptr"

text \<open>
  The program state: the memory holding the instances, the set of addresses at which an
  instance is alive (constructed and not yet destroyed), and the deleter calls made so far,
  oldest first. A deleter call does not write to any instance.
\<close>

record 'd state =
  mem :: "obj \<Rightarrow> 'd Unique_ptr"
  live :: "obj set"
  calls :: "'d call list"

section \<open>Observers\<close>

definition get :: "'d Unique_ptr \<Rightarrow> pointer" where
  "get up = first (pair up)"

definition get_deleter :: "'d Unique_ptr \<Rightarrow> 'd" where
  "get_deleter up = second (pair up)"

definition operator_bool :: "'d Unique_ptr \<Rightarrow> bool" where
  "operator_bool up = (get up \<noteq> nullptr)"

section \<open>Writing through \<^verbatim>\<open>pair_.first()\<close> and \<^verbatim>\<open>pair_.second()\<close>, calling the deleter\<close>

definition set_first :: "obj \<Rightarrow> pointer \<Rightarrow> 'd state \<Rightarrow> 'd state" where
  "set_first this p s =
     s\<lparr>mem := (mem s)(this := (mem s this)\<lparr>pair := (pair (mem s this))\<lparr>first := p\<rparr>\<rparr>)\<rparr>"

definition set_second :: "obj \<Rightarrow> 'd \<Rightarrow> 'd state \<Rightarrow> 'd state" where
  "set_second this d s =
     s\<lparr>mem := (mem s)(this := (mem s this)\<lparr>pair := (pair (mem s this))\<lparr>second := d\<rparr>\<rparr>)\<rparr>"

definition invoke :: "'d \<Rightarrow> pointer \<Rightarrow> 'd state \<Rightarrow> 'd state" where
  "invoke d p s = s\<lparr>calls := calls s @ [\<lparr>deleter = d, arg = p, seen = mem s\<rparr>]\<rparr>"

section \<open>Modifiers\<close>

text \<open>\<^verbatim>\<open>pointer release() noexcept\<close>\<close>

definition release :: "obj \<Rightarrow> 'd state \<Rightarrow> pointer \<times> 'd state" where
  "release this s =
     (let ret = first (pair (mem s this));
          s1 = set_first this nullptr s
      in (ret, s1))"

text \<open>\<^verbatim>\<open>void reset(pointer p = pointer()) noexcept\<close>\<close>

definition reset :: "obj \<Rightarrow> pointer \<Rightarrow> 'd state \<Rightarrow> 'd state" where
  "reset this p s =
     (let old_p = first (pair (mem s this));
          s1 = set_first this p s
      in if old_p \<noteq> nullptr then invoke (get_deleter (mem s1 this)) old_p s1 else s1)"

text \<open>
  \<^verbatim>\<open>void swap(Unique_ptr &u) noexcept\<close>: \<^verbatim>\<open>std::swap\<close> on the stored pointers, then on the
  stored deleters, each through a temporary.
\<close>

definition swap :: "obj \<Rightarrow> obj \<Rightarrow> 'd state \<Rightarrow> 'd state" where
  "swap this u s =
     (let tmp = first (pair (mem s this));
          s1 = set_first this (first (pair (mem s u))) s;
          s2 = set_first u tmp s1;
          tmp_d = second (pair (mem s2 this));
          s3 = set_second this (second (pair (mem s2 u))) s2
      in set_second u tmp_d s3)"

section \<open>Constructors, destructor, assignment\<close>

text \<open>An instance with the given members starts its life at address \<open>this\<close>.\<close>

definition construct :: "obj \<Rightarrow> pointer \<Rightarrow> 'd \<Rightarrow> 'd state \<Rightarrow> 'd state" where
  "construct this p d s =
     s\<lparr>mem := (mem s)(this := \<lparr>pair = \<lparr>first = p, second = d\<rparr>\<rparr>), live := insert this (live s)\<rparr>"

text \<open>\<^verbatim>\<open>Unique_ptr(pointer p, const D &d)\<close> and \<^verbatim>\<open>Unique_ptr(pointer p, remove_reference_t<D> &&d)\<close>\<close>

definition ctor_pointer_deleter :: "obj \<Rightarrow> pointer \<Rightarrow> 'd \<Rightarrow> 'd state \<Rightarrow> 'd state" where
  "ctor_pointer_deleter this p d s = construct this p d s"

text \<open>
  \<^verbatim>\<open>Unique_ptr(Unique_ptr &&u)\<close>: \<^verbatim>\<open>pair_(u.release(), std::forward<D>(u.get_deleter()))\<close>.
  Constructing or assigning a deleter from another one gives it the other's value. What a
  moved-from deleter holds afterwards depends on \<^verbatim>\<open>D\<close>; here it keeps its value, and no
  statement below reads it.
\<close>

definition move_ctor :: "obj \<Rightarrow> obj \<Rightarrow> 'd state \<Rightarrow> 'd state" where
  "move_ctor this u s =
     (let (p, s1) = release u s;
          d = get_deleter (mem s1 u)
      in construct this p d s1)"

text \<open>
  \<^verbatim>\<open>template <typename U, typename E> Unique_ptr(Unique_ptr<U, E> &&u)\<close>: the same
  initialiser; the deleter of type \<^verbatim>\<open>E\<close> is converted to \<^verbatim>\<open>D\<close> by \<open>conv\<close>.
\<close>

definition move_ctor_conv :: "('d \<Rightarrow> 'd) \<Rightarrow> obj \<Rightarrow> obj \<Rightarrow> 'd state \<Rightarrow> 'd state" where
  "move_ctor_conv conv this u s =
     (let (p, s1) = release u s;
          d = conv (get_deleter (mem s1 u))
      in construct this p d s1)"

text \<open>\<^verbatim>\<open>~Unique_ptr()\<close>; afterwards no instance is alive at \<open>this\<close>.\<close>

definition dtor :: "obj \<Rightarrow> 'd state \<Rightarrow> 'd state" where
  "dtor this s =
     (let s1 = (if get (mem s this) \<noteq> nullptr
                then invoke (get_deleter (mem s this)) (get (mem s this)) s
                else s)
      in s1\<lparr>live := live s1 - {this}\<rparr>)"

text \<open>\<^verbatim>\<open>Unique_ptr &operator=(Unique_ptr &&u)\<close>\<close>

definition move_assign :: "obj \<Rightarrow> obj \<Rightarrow> 'd state \<Rightarrow> 'd state" where
  "move_assign this u s =
     (let (p, s1) = release u s;
          s2 = reset this p s1
      in set_second this (get_deleter (mem s2 u)) s2)"

text \<open>\<^verbatim>\<open>template <class U, class E> Unique_ptr &operator=(Unique_ptr<U, E> &&u)\<close>\<close>

definition move_assign_conv :: "('d \<Rightarrow> 'd) \<Rightarrow> obj \<Rightarrow> obj \<Rightarrow> 'd state \<Rightarrow> 'd state" where
  "move_assign_conv conv this u s =
     (let (p, s1) = release u s;
          s2 = reset this p s1
      in set_second this (conv (get_deleter (mem s2 u))) s2)"

text \<open>\<^verbatim>\<open>Unique_ptr &operator=(std::nullptr_t)\<close>\<close>

definition null_assign :: "obj \<Rightarrow> 'd state \<Rightarrow> 'd state" where
  "null_assign this s = reset this nullptr s"

section \<open>Free functions\<close>

text \<open>\<^verbatim>\<open>swap(Unique_ptr<T, D> &x, Unique_ptr<T, D> &y)\<close>\<close>

definition swap_free :: "obj \<Rightarrow> obj \<Rightarrow> 'd state \<Rightarrow> 'd state" where
  "swap_free x y s = swap x y s"

text \<open>
  \<^verbatim>\<open>operator==(const Unique_ptr<T1, D1> &x, const Unique_ptr<T2, D2> &y)\<close> and
  \<^verbatim>\<open>operator==(const Unique_ptr<T, D> &x, std::nullptr_t)\<close>
\<close>

definition operator_eq :: "'d1 Unique_ptr \<Rightarrow> 'd2 Unique_ptr \<Rightarrow> bool" where
  "operator_eq x y = (get x = get y)"

definition operator_eq_nullptr :: "'d Unique_ptr \<Rightarrow> bool" where
  "operator_eq_nullptr x = (\<not> operator_bool x)"

section \<open>The public operations that change an instance\<close>

text \<open>
  The operations of the class that take or give up a stored pointer. The copy constructor
  and the copy assignment operator are deleted in the class, so there is no constructor for
  them here. \<open>Release\<close> hands the returned pointer to the caller.
\<close>

datatype 'd operation =
    Move_ctor obj obj
  | Move_ctor_conv "'d \<Rightarrow> 'd" obj obj
  | Move_assign obj obj
  | Move_assign_conv "'d \<Rightarrow> 'd" obj obj
  | Null_assign obj
  | Release obj
  | Reset obj pointer
  | Swap obj obj
  | Dtor obj

fun exec :: "'d operation \<Rightarrow> 'd state \<Rightarrow> 'd state" where
  "exec (Move_ctor this u) s = move_ctor this u s"
| "exec (Move_ctor_conv conv this u) s = move_ctor_conv conv this u s"
| "exec (Move_assign this u) s = move_assign this u s"
| "exec (Move_assign_conv conv this u) s = move_assign_conv conv this u s"
| "exec (Null_assign this) s = null_assign this s"
| "exec (Release this) s = snd (release this s)"
| "exec (Reset this p) s = reset this p s"
| "exec (Swap this u) s = swap this u s"
| "exec (Dtor this) s = dtor this s"

text \<open>Every instance an operation reads is alive: using a destroyed instance is undefined.\<close>

fun op_ok :: "'d operation \<Rightarrow> 'd state \<Rightarrow> bool" where
  "op_ok (Move_ctor this u) s = (u \<in> live s)"
| "op_ok (Move_ctor_conv conv this u) s = (u \<in> live s)"
| "op_ok (Move_assign this u) s = (this \<in> live s \<and> u \<in> live s)"
| "op_ok (Move_assign_conv conv this u) s = (this \<in> live s \<and> u \<in> live s)"
| "op_ok (Null_assign this) s = (this \<in> live s)"
| "op_ok (Release this) s = (this \<in> live s)"
| "op_ok (Reset this p) s = (this \<in> live s)"
| "op_ok (Swap this u) s = (this \<in> live s \<and> u \<in> live s)"
| "op_ok (Dtor this) s = (this \<in> live s)"

text \<open>The destination and the source of an operation that moves from another instance.\<close>

fun move_of :: "'d operation \<Rightarrow> (obj \<times> obj) option" where
  "move_of (Move_ctor this u) = Some (this, u)"
| "move_of (Move_ctor_conv conv this u) = Some (this, u)"
| "move_of (Move_assign this u) = Some (this, u)"
| "move_of (Move_assign_conv conv this u) = Some (this, u)"
| "move_of (Null_assign this) = None"
| "move_of (Release this) = None"
| "move_of (Reset this p) = None"
| "move_of (Swap this u) = None"
| "move_of (Dtor this) = None"

text \<open>No two live instances hold the same non-null stored pointer.\<close>

definition unique_owner :: "'d state \<Rightarrow> bool" where
  "unique_owner s =
     (\<forall>x \<in> live s. \<forall>y \<in> live s.
        x \<noteq> y \<longrightarrow> get (mem s x) \<noteq> nullptr \<longrightarrow> get (mem s x) \<noteq> get (mem s y))"

text \<open>
  The pointer given to \<^verbatim>\<open>reset\<close> comes from the caller: it is null, or no other live instance
  holds it.
\<close>

fun adopts_unowned :: "'d operation \<Rightarrow> 'd state \<Rightarrow> bool" where
  "adopts_unowned (Reset this p) s =
     (p = nullptr \<or> (\<forall>y \<in> live s. y \<noteq> this \<longrightarrow> get (mem s y) \<noteq> p))"
| "adopts_unowned f s = True"

section \<open>Example states\<close>

text \<open>
  Deleters are numbered. \<open>start\<close> has no instance. In \<open>two_owners\<close> the instance at 100
  holds address 10 with deleter 7 and the instance at 200 holds address 20 with deleter 8;
  in \<open>owner_and_empty\<close> the instance at 200 holds the null pointer instead.
\<close>

definition start :: "nat state" where
  "start = \<lparr>mem = (\<lambda>a. \<lparr>pair = \<lparr>first = nullptr, second = 0\<rparr>\<rparr>), live = {}, calls = []\<rparr>"

definition two_owners :: "nat state" where
  "two_owners = ctor_pointer_deleter 200 20 8 (ctor_pointer_deleter 100 10 7 start)"

definition owner_and_empty :: "nat state" where
  "owner_and_empty = ctor_pointer_deleter 200 nullptr 8 (ctor_pointer_deleter 100 10 7 start)"

section \<open>Evaluating the definitions\<close>

lemmas member_defs =
  Let_def set_first_def set_second_def invoke_def get_def get_deleter_def construct_def

lemmas example_defs =
  two_owners_def owner_and_empty_def start_def ctor_pointer_deleter_def construct_def

lemma two_owners_live: "live two_owners = {100, 200}"
  by (auto simp: example_defs)

lemma two_owners_mem:
  "mem two_owners 100 = \<lparr>pair = \<lparr>first = 10, second = 7\<rparr>\<rparr>"
  "mem two_owners 200 = \<lparr>pair = \<lparr>first = 20, second = 8\<rparr>\<rparr>"
  by (simp_all add: example_defs)

lemma two_owners_calls: "calls two_owners = []"
  by (simp add: example_defs)

lemma owner_and_empty_live: "live owner_and_empty = {100, 200}"
  by (auto simp: example_defs)

lemma owner_and_empty_mem:
  "mem owner_and_empty 100 = \<lparr>pair = \<lparr>first = 10, second = 7\<rparr>\<rparr>"
  "mem owner_and_empty 200 = \<lparr>pair = \<lparr>first = nullptr, second = 8\<rparr>\<rparr>"
  by (simp_all add: example_defs)

lemma owner_and_empty_calls: "calls owner_and_empty = []"
  by (simp add: example_defs)

lemma two_owners_unique: "unique_owner two_owners"
  by (simp add: unique_owner_def two_owners_live two_owners_mem get_def)

section \<open>Ownership\<close>

text \<open>
  Claim C1, as amended. From a state in which no two live instances hold the same non-null
  stored pointer, every operation of the class on live instances (move construction,
  converting move construction, move assignment, converting move assignment, null
  assignment, release, reset, swap, destruction) leads to such a state again, provided the
  pointer given to reset is null or is not held by another live instance. An operation
  that moves from a source into a different destination leaves the source with the null
  pointer. There is no operation that copies an instance.
\<close>

theorem unique_owner_preserved:
  assumes "unique_owner s" and "op_ok f s" and "adopts_unowned f s"
  shows "unique_owner (exec f s) \<and>
         (\<forall>t u. move_of f = Some (t, u) \<longrightarrow> t \<noteq> u \<longrightarrow> get (mem (exec f s) u) = nullptr)"
proof (cases f)
  case (Move_ctor t u)
  with assms show ?thesis
    by (auto simp: unique_owner_def move_ctor_def release_def member_defs)
next
  case (Move_ctor_conv conv t u)
  with assms show ?thesis
    by (auto simp: unique_owner_def move_ctor_conv_def release_def member_defs)
next
  case (Move_assign t u)
  with assms show ?thesis
    by (auto simp: unique_owner_def move_assign_def release_def reset_def member_defs)
next
  case (Move_assign_conv conv t u)
  with assms show ?thesis
    by (auto simp: unique_owner_def move_assign_conv_def release_def reset_def member_defs)
next
  case (Null_assign x)
  with assms show ?thesis
    by (auto simp: unique_owner_def null_assign_def reset_def member_defs)
next
  case (Release x)
  with assms show ?thesis
    by (auto simp: unique_owner_def release_def member_defs)
next
  case (Reset x q)
  with assms show ?thesis
    by (auto simp: unique_owner_def reset_def member_defs)
next
  case (Swap x y)
  with assms show ?thesis
    by (auto simp: unique_owner_def swap_def member_defs)
next
  case (Dtor x)
  with assms show ?thesis
    by (auto simp: unique_owner_def dtor_def member_defs)
qed

theorem unique_owner_preserved_witness:
  "unique_owner two_owners \<and> op_ok (Move_assign 100 200) two_owners \<and>
   adopts_unowned (Move_assign 100 200) two_owners \<and>
   unique_owner (exec (Move_assign 100 200) two_owners) \<and>
   get (mem (exec (Move_assign 100 200) two_owners) 200) = nullptr \<and>
   op_ok (Reset 100 30) two_owners \<and> adopts_unowned (Reset 100 30) two_owners \<and>
   unique_owner (exec (Reset 100 30) two_owners)"
proof -
  have h1: "unique_owner two_owners"
    by (rule two_owners_unique)
  have h2: "op_ok (Move_assign 100 200) two_owners"
    by (simp add: two_owners_live)
  have h3: "adopts_unowned (Move_assign 100 200) two_owners"
    by simp
  have h4: "op_ok (Reset 100 30) two_owners"
    by (simp add: two_owners_live)
  have h5: "adopts_unowned (Reset 100 30) two_owners"
    by (simp add: two_owners_live two_owners_mem get_def)
  from unique_owner_preserved [OF h1 h2 h3]
  have "unique_owner (exec (Move_assign 100 200) two_owners) \<and>
        get (mem (exec (Move_assign 100 200) two_owners) 200) = nullptr"
    by simp
  moreover from unique_owner_preserved [OF h1 h4 h5]
  have "unique_owner (exec (Reset 100 30) two_owners)"
    by simp
  ultimately show ?thesis
    using h1 h2 h3 h4 h5 by simp
qed

text \<open>
  Claim C1 as stated fails in two places. In \<open>two_owners\<close> both live instances hold
  different non-null pointers, and \<^verbatim>\<open>reset(20)\<close> on the instance at 100 leaves both holding
  address 20. Move assignment of the instance at 100 from itself leaves its stored pointer,
  the source's, at address 10.
\<close>

theorem unique_owner_reset_counterexample:
  "live two_owners = {100, 200} \<and> get (mem two_owners 100) = 10 \<and> get (mem two_owners 200) = 20 \<and>
   unique_owner two_owners \<and> op_ok (Reset 100 20) two_owners \<and>
   \<not> unique_owner (exec (Reset 100 20) two_owners) \<and>
   get (mem (exec (Reset 100 20) two_owners) 100) = get (mem (exec (Reset 100 20) two_owners) 200) \<and>
   op_ok (Move_assign 100 100) two_owners \<and>
   get (mem (exec (Move_assign 100 100) two_owners) 100) = 10"
proof -
  have "\<not> unique_owner (exec (Reset 100 20) two_owners)"
    by (simp add: unique_owner_def reset_def member_defs two_owners_live two_owners_mem)
  moreover have "get (mem (exec (Move_assign 100 100) two_owners) 100) = 10"
    by (simp add: move_assign_def release_def reset_def member_defs two_owners_mem)
  moreover have "get (mem (exec (Reset 100 20) two_owners) 100) = get (mem (exec (Reset 100 20) two_owners) 200)"
    by (simp add: reset_def member_defs two_owners_mem)
  ultimately show ?thesis
    by (simp add: two_owners_unique two_owners_live two_owners_mem get_def)
qed

text \<open>
  The condition on \<^verbatim>\<open>reset\<close> is the weakest one: on a live instance, \<^verbatim>\<open>reset(q)\<close> keeps
  the stored pointers of live instances apart exactly when \<open>q\<close> is null or not held by
  another live instance.
\<close>

lemma reset_unique_owner_iff:
  assumes "unique_owner s" and "x \<in> live s"
  shows "unique_owner (reset x q s) \<longleftrightarrow> adopts_unowned (Reset x q) s"
  using assms
  by (auto simp: unique_owner_def reset_def member_defs)

section \<open>Move construction and move assignment\<close>

text \<open>
  Claim C2. For a source instance \<open>a\<close>, holding a null or a non-null pointer, and a
  different destination \<open>b\<close>: after move construction of \<open>b\<close> from \<open>a\<close>, and after move
  assignment of \<open>a\<close> into \<open>b\<close> (whatever \<open>b\<close> held, so also when \<open>b\<close> was empty), \<open>b\<close>
  holds the pointer \<open>a\<close> held before, \<open>a\<close> holds the null pointer, and the deleter of \<open>b\<close>
  has the value of the deleter of \<open>a\<close>.
\<close>

theorem move_transfer:
  assumes "b \<noteq> a"
  shows "get (mem (move_ctor b a s) b) = get (mem s a) \<and>
         get (mem (move_ctor b a s) a) = nullptr \<and>
         get_deleter (mem (move_ctor b a s) b) = get_deleter (mem s a) \<and>
         get (mem (move_assign b a s) b) = get (mem s a) \<and>
         get (mem (move_assign b a s) a) = nullptr \<and>
         get_deleter (mem (move_assign b a s) b) = get_deleter (mem s a)"
  using assms
  by (simp add: move_ctor_def move_assign_def release_def reset_def member_defs)

theorem move_transfer_witness:
  "(300::obj) \<noteq> 100 \<and> (200::obj) \<noteq> 100 \<and> get (mem owner_and_empty 200) = nullptr \<and>
   get (mem (move_ctor 300 100 owner_and_empty) 300) = 10 \<and>
   get (mem (move_ctor 300 100 owner_and_empty) 100) = nullptr \<and>
   get_deleter (mem (move_ctor 300 100 owner_and_empty) 300) = 7 \<and>
   get (mem (move_assign 200 100 owner_and_empty) 200) = 10 \<and>
   get (mem (move_assign 200 100 owner_and_empty) 100) = nullptr \<and>
   get_deleter (mem (move_assign 200 100 owner_and_empty) 200) = 7"
proof -
  have h1: "(300::obj) \<noteq> 100" and h2: "(200::obj) \<noteq> 100"
    by simp_all
  from move_transfer [OF h1, of owner_and_empty] move_transfer [OF h2, of owner_and_empty]
  show ?thesis
    by (simp add: owner_and_empty_mem get_def get_deleter_def)
qed

text \<open>
  Claim C3. Move assignment of an instance from itself leaves its stored pointer as it was,
  null or not, and calls no deleter.
\<close>

theorem self_move_assign_unchanged:
  "get (mem (move_assign x x s) x) = get (mem s x) \<and> calls (move_assign x x s) = calls s"
  by (simp add: move_assign_def release_def reset_def member_defs)

theorem self_move_assign_unchanged_witness:
  "get (mem (move_assign 100 100 two_owners) 100) = 10 \<and>
   calls (move_assign 100 100 two_owners) = []"
  using self_move_assign_unchanged [of 100 two_owners]
  by (simp add: two_owners_mem two_owners_calls get_def)

section \<open>reset, release and the destructor\<close>

text \<open>
  Claim C4. \<^verbatim>\<open>x.reset(q)\<close> leaves \<^verbatim>\<open>x.get() == q\<close>. If the stored pointer was not null, the
  deleter of \<open>x\<close> is called once, on the old stored pointer, and the call runs in the memory
  as \<^verbatim>\<open>reset\<close> leaves it, where \<open>x\<close> already holds \<open>q\<close>. If the stored pointer was null, no
  deleter is called.
\<close>

theorem reset_assigns_then_deletes:
  "get (mem (reset x q s) x) = q \<and>
   (get (mem s x) \<noteq> nullptr \<longrightarrow>
      calls (reset x q s) =
        calls s @ [\<lparr>deleter = get_deleter (mem s x), arg = get (mem s x),
                    seen = mem (reset x q s)\<rparr>]) \<and>
   (get (mem s x) = nullptr \<longrightarrow> calls (reset x q s) = calls s)"
  by (simp add: reset_def member_defs)

theorem reset_assigns_then_deletes_witness:
  "get (mem two_owners 100) \<noteq> nullptr \<and>
   get (mem (reset 100 30 two_owners) 100) = 30 \<and>
   map (\<lambda>c. (deleter c, arg c, get (seen c 100))) (calls (reset 100 30 two_owners)) =
     [(7, 10, 30)] \<and>
   get (mem owner_and_empty 200) = nullptr \<and>
   get (mem (reset 200 30 owner_and_empty) 200) = 30 \<and>
   calls (reset 200 30 owner_and_empty) = []"
proof -
  have h1: "get (mem two_owners 100) \<noteq> nullptr"
    by (simp add: two_owners_mem get_def)
  have h2: "get (mem owner_and_empty 200) = nullptr"
    by (simp add: owner_and_empty_mem get_def)
  from h1 h2 reset_assigns_then_deletes [of 100 30 two_owners]
    reset_assigns_then_deletes [of 200 30 owner_and_empty]
  show ?thesis
    by (simp add: two_owners_mem two_owners_calls owner_and_empty_calls get_def get_deleter_def)
qed

text \<open>
  Claim C5. \<^verbatim>\<open>x.release()\<close> returns the pointer \<open>x\<close> held at the start of the call and
  leaves \<open>x\<close> holding the null pointer. The deleter of \<open>x\<close> keeps its value, no deleter is
  called, the same instances are alive and every other instance is as it was.
\<close>

theorem release_frame:
  "fst (release x s) = get (mem s x) \<and>
   get (mem (snd (release x s)) x) = nullptr \<and>
   get_deleter (mem (snd (release x s)) x) = get_deleter (mem s x) \<and>
   calls (snd (release x s)) = calls s \<and>
   live (snd (release x s)) = live s \<and>
   (\<forall>y. y \<noteq> x \<longrightarrow> mem (snd (release x s)) y = mem s y)"
  by (simp add: release_def member_defs)

theorem release_frame_witness:
  "(200::obj) \<noteq> 100 \<and>
   fst (release 100 two_owners) = 10 \<and>
   get (mem (snd (release 100 two_owners)) 100) = nullptr \<and>
   get_deleter (mem (snd (release 100 two_owners)) 100) = 7 \<and>
   calls (snd (release 100 two_owners)) = [] \<and>
   live (snd (release 100 two_owners)) = {100, 200} \<and>
   mem (snd (release 100 two_owners)) 200 = \<lparr>pair = \<lparr>first = 20, second = 8\<rparr>\<rparr>"
proof -
  have h: "(200::obj) \<noteq> 100"
    by simp
  from release_frame [of 100 two_owners] h
  have "mem (snd (release 100 two_owners)) 200 = mem two_owners 200"
    by blast
  with release_frame [of 100 two_owners] show ?thesis
    by (simp add: two_owners_mem two_owners_calls two_owners_live get_def get_deleter_def)
qed

text \<open>
  Claim C6. Destroying an instance whose stored pointer is not null calls its deleter
  exactly once, on the stored pointer; destroying an instance whose stored pointer is null
  calls no deleter.
\<close>

theorem dtor_calls_deleter_once:
  "(get (mem s x) \<noteq> nullptr \<longrightarrow>
      calls (dtor x s) =
        calls s @ [\<lparr>deleter = get_deleter (mem s x), arg = get (mem s x), seen = mem s\<rparr>]) \<and>
   (get (mem s x) = nullptr \<longrightarrow> calls (dtor x s) = calls s)"
  by (simp add: dtor_def member_defs)

theorem dtor_calls_deleter_once_witness:
  "get (mem two_owners 100) \<noteq> nullptr \<and>
   map (\<lambda>c. (deleter c, arg c)) (calls (dtor 100 two_owners)) = [(7, 10)] \<and>
   get (mem owner_and_empty 200) = nullptr \<and>
   calls (dtor 200 owner_and_empty) = []"
proof -
  have h1: "get (mem two_owners 100) \<noteq> nullptr"
    by (simp add: two_owners_mem get_def)
  have h2: "get (mem owner_and_empty 200) = nullptr"
    by (simp add: owner_and_empty_mem get_def)
  from h1 h2 dtor_calls_deleter_once [of two_owners 100]
    dtor_calls_deleter_once [of owner_and_empty 200]
  show ?thesis
    by (simp add: two_owners_mem two_owners_calls owner_and_empty_calls get_def get_deleter_def)
qed

text \<open>
  Claim C10. \<^verbatim>\<open>x.reset(x.release())\<close> gives back the state it started from: the stored
  pointer of \<open>x\<close>, null or not, and its deleter are as before, and no deleter is called.
\<close>

theorem reset_release_roundtrip:
  "(case release x s of (p, s1) \<Rightarrow> reset x p s1) = s \<and>
   get (mem (case release x s of (p, s1) \<Rightarrow> reset x p s1) x) = get (mem s x) \<and>
   get_deleter (mem (case release x s of (p, s1) \<Rightarrow> reset x p s1) x) = get_deleter (mem s x) \<and>
   calls (case release x s of (p, s1) \<Rightarrow> reset x p s1) = calls s"
  by (simp add: release_def reset_def member_defs)

theorem reset_release_roundtrip_witness:
  "(case release 100 two_owners of (p, s1) \<Rightarrow> reset 100 p s1) = two_owners \<and>
   get (mem (case release 100 two_owners of (p, s1) \<Rightarrow> reset 100 p s1) 100) = 10 \<and>
   get_deleter (mem (case release 100 two_owners of (p, s1) \<Rightarrow> reset 100 p s1) 100) = 7 \<and>
   calls (case release 100 two_owners of (p, s1) \<Rightarrow> reset 100 p s1) = []"
  using reset_release_roundtrip [of 100 two_owners]
  by (simp add: two_owners_mem two_owners_calls get_def get_deleter_def)

section \<open>swap\<close>

text \<open>
  Claim C8. After the member \<^verbatim>\<open>swap\<close> and after the free function \<^verbatim>\<open>swap\<close> on \<open>x\<close> and
  \<open>y\<close>, \<open>x\<close> holds the pointer and the deleter \<open>y\<close> held, \<open>y\<close> holds the pointer and the
  deleter \<open>x\<close> held, whether the pointers are null or not, and no deleter is called.
\<close>

theorem swap_exchanges:
  "get (mem (swap x y s) x) = get (mem s y) \<and>
   get_deleter (mem (swap x y s) x) = get_deleter (mem s y) \<and>
   get (mem (swap x y s) y) = get (mem s x) \<and>
   get_deleter (mem (swap x y s) y) = get_deleter (mem s x) \<and>
   calls (swap x y s) = calls s \<and>
   swap_free x y s = swap x y s"
  by (simp add: swap_def swap_free_def member_defs)

theorem swap_exchanges_witness:
  "get (mem (swap_free 100 200 owner_and_empty) 100) = nullptr \<and>
   get_deleter (mem (swap_free 100 200 owner_and_empty) 100) = 8 \<and>
   get (mem (swap_free 100 200 owner_and_empty) 200) = 10 \<and>
   get_deleter (mem (swap_free 100 200 owner_and_empty) 200) = 7 \<and>
   calls (swap_free 100 200 owner_and_empty) = []"
  using swap_exchanges [of 100 200 owner_and_empty]
  by (simp add: owner_and_empty_mem owner_and_empty_calls get_def get_deleter_def)

section \<open>Comparison\<close>

text \<open>
  Claim C9. \<^verbatim>\<open>x == y\<close> holds exactly when \<^verbatim>\<open>x.get() == y.get()\<close>, whatever the types and the
  values of the two deleters; \<^verbatim>\<open>x == nullptr\<close> holds exactly when \<^verbatim>\<open>x.get() == nullptr\<close>,
  that is, exactly when the conversion of \<open>x\<close> to \<^verbatim>\<open>bool\<close> gives false.
\<close>

theorem operator_eq_compares_addresses:
  "(operator_eq x y \<longleftrightarrow> get x = get y) \<and>
   (operator_eq \<lparr>pair = \<lparr>first = p, second = d1\<rparr>\<rparr> \<lparr>pair = \<lparr>first = q, second = d2\<rparr>\<rparr>
      \<longleftrightarrow> p = q) \<and>
   (operator_eq_nullptr x \<longleftrightarrow> get x = nullptr) \<and>
   (operator_eq_nullptr x \<longleftrightarrow> \<not> operator_bool x)"
  by (simp add: operator_eq_def operator_eq_nullptr_def operator_bool_def get_def)

theorem operator_eq_compares_addresses_witness:
  "operator_eq \<lparr>pair = \<lparr>first = 10, second = True\<rparr>\<rparr> \<lparr>pair = \<lparr>first = 10, second = ''d''\<rparr>\<rparr> \<and>
   \<not> operator_eq (mem two_owners 100) (mem two_owners 200) \<and>
   operator_eq_nullptr (mem owner_and_empty 200) \<and>
   \<not> operator_eq_nullptr (mem owner_and_empty 100)"
  using operator_eq_compares_addresses [of "mem two_owners 100" "mem two_owners 200" 10 True 10 "''d''"]
    operator_eq_compares_addresses [of "mem owner_and_empty 200" "mem owner_and_empty 200" 10 True 10 "''d''"]
    operator_eq_compares_addresses [of "mem owner_and_empty 100" "mem owner_and_empty 100" 10 True 10 "''d''"]
  by (simp add: two_owners_mem owner_and_empty_mem get_def)

end
